theory Spec2Isabelle
  imports Main
begin

section \<open>The single-file download engine of downloader.py\<close>

text \<open>
  \<^verbatim>\<open>download_file\<close> talks to three things it does not own: the HTTP server (through
  \<^verbatim>\<open>requests\<close>), the file system below the destination path, and \<^verbatim>\<open>hashlib\<close>. The
  server, the permission to create the parent directories and the table of hash
  algorithms are given as an environment; the destination path, the requests issued so
  far, the calls of the progress callback and the warnings logged are the state the
  function passes along. Every exception of the source is a value: a function that can
  raise returns \<open>exn + 'a\<close>, with \<open>Inl\<close> the exception.
\<close>

subsection \<open>Data\<close>

type_synonym bytes = "char list"

text \<open>
  The exceptions that reach the retry loop. \<^verbatim>\<open>requests.HTTPError\<close>, timeouts and
  connection errors are all \<^verbatim>\<open>requests.RequestException\<close>; \<^verbatim>\<open>HashMismatchError\<close> and
  \<^verbatim>\<open>DownloadError\<close> carry their message. \<^verbatim>\<open>TypeError\<close> is what \<^verbatim>\<open>hexdigest()\<close> raises
  when the algorithm needs a digest length.
\<close>

datatype exn =
    RequestException
  | OSError
  | ValueError
  | TypeError
  | HashMismatchError string
  | DownloadError string

text \<open>
  The destination path: its parent directory is missing, or it is there and the
  destination is absent (\<open>None\<close>) or a regular file with the given content.
\<close>

datatype filesystem = MissingParent | InParent "bytes option"

datatype request = Head string | Get string "(string \<times> string) list"

text \<open>
  The \<^verbatim>\<open>content-length\<close> header as \<^verbatim>\<open>int(headers.get('content-length', 0))\<close> reads it:
  not sent, a text that \<^verbatim>\<open>int\<close> parses to the given number, or a text on which
  \<^verbatim>\<open>int\<close> raises \<^verbatim>\<open>ValueError\<close>.
\<close>

datatype header_int = Absent | Numeric int | NonNumeric

text \<open>
  What a request comes back with: the call itself raises (no connection, timeout), or a
  response with its status code, its \<^verbatim>\<open>content-length\<close> header, the chunks that
  \<^verbatim>\<open>iter_content\<close> hands out, and whether the stream breaks (raises) after the last of
  them.
\<close>

datatype reply =
    ConnectionFailed
  | Response int header_int "bytes list" bool

datatype mode = WB | AB

text \<open>
  A hash object of \<^verbatim>\<open>hashlib\<close>: of fixed digest length, with the hex digest as a function
  of all the bytes fed to it (feeding chunk after chunk is feeding their concatenation),
  or of extendable output (\<^verbatim>\<open>shake_128\<close>, \<^verbatim>\<open>shake_256\<close>), whose \<^verbatim>\<open>hexdigest\<close> takes the
  length as an argument.
\<close>

datatype hash_object = Fixed "bytes \<Rightarrow> string" | Extendable

record env =
  can_mkdir :: bool
  server :: "nat \<Rightarrow> request \<Rightarrow> reply"
  hashlib_new :: "string \<Rightarrow> hash_object option"

text \<open>
  \<open>server e n r\<close> is the reply to request \<open>r\<close> when \<open>n\<close> requests were issued before
  it. \<open>hashlib_new e name\<close> is \<open>None\<close> where \<^verbatim>\<open>hashlib.new(name)\<close> raises \<^verbatim>\<open>ValueError\<close>
  (unsupported name), and otherwise the hash object it returns.
\<close>

record args =
  url :: string
  expected_hash :: "string option"
  hash_algo :: string
  progress_callback :: bool
  chunk_size :: int
  max_retries :: int
  resume :: bool

text \<open>
  The arguments of the call. \<open>progress_callback\<close> says whether a callback was passed; its
  calls are recorded in the state, and it is taken to return normally. The destination is
  the one path the state describes;
  \<^verbatim>\<open>timeout\<close> is a float handed on to \<^verbatim>\<open>requests\<close>, where a timeout shows as a failed
  request.
\<close>

record world =
  disk :: filesystem
  sent :: "request list"
  progress_calls :: "(int \<times> int) list"
  warnings :: "(int \<times> exn) list"

subsection \<open>Formatting integers\<close>

definition digit_char :: "nat \<Rightarrow> char" where
  "digit_char d = ''0123456789'' ! d"

function str_nat :: "nat \<Rightarrow> string" where
  "str_nat n = (if n < 10 then [digit_char n] else str_nat (n div 10) @ [digit_char (n mod 10)])"
  by pat_completeness auto
termination
  by (relation "measure id") auto

declare str_nat.simps [simp del]

definition str_int :: "int \<Rightarrow> string" where
  "str_int i = (if i < 0 then CHR ''-'' # str_nat (nat (- i)) else str_nat (nat i))"

subsection \<open>File system and network primitives\<close>

text \<open>\<^verbatim>\<open>dest.parent.mkdir(parents=True, exist_ok=True)\<close> (line 26).\<close>

definition mkdir_parents :: "env \<Rightarrow> world \<Rightarrow> exn + world" where
  "mkdir_parents e w =
     (case disk w of
        InParent d \<Rightarrow> Inr w
      | MissingParent \<Rightarrow>
          if can_mkdir e then Inr (w\<lparr>disk := InParent None\<rparr>) else Inl OSError)"

definition dest_exists :: "world \<Rightarrow> bool" where
  "dest_exists w = (case disk w of InParent (Some data) \<Rightarrow> True | _ \<Rightarrow> False)"

text \<open>\<^verbatim>\<open>dest.stat().st_size\<close>.\<close>

definition stat_size :: "world \<Rightarrow> exn + int" where
  "stat_size w =
     (case disk w of InParent (Some data) \<Rightarrow> Inr (int (length data)) | _ \<Rightarrow> Inl OSError)"

text \<open>\<^verbatim>\<open>dest.unlink()\<close>: raises when there is no file.\<close>

definition unlink :: "world \<Rightarrow> exn + world" where
  "unlink w =
     (case disk w of
        InParent (Some data) \<Rightarrow> Inr (w\<lparr>disk := InParent None\<rparr>)
      | _ \<Rightarrow> Inl OSError)"

text \<open>
  \<^verbatim>\<open>open(dest, mode)\<close> for writing: the content the writes are appended to. \<^verbatim>\<open>'wb'\<close>
  truncates, \<^verbatim>\<open>'ab'\<close> keeps what is there; both create the file.
\<close>

definition open_dest :: "mode \<Rightarrow> world \<Rightarrow> exn + bytes" where
  "open_dest m w =
     (case disk w of
        MissingParent \<Rightarrow> Inl OSError
      | InParent d \<Rightarrow>
          Inr (case m of WB \<Rightarrow> [] | AB \<Rightarrow> (case d of None \<Rightarrow> [] | Some old \<Rightarrow> old)))"

text \<open>\<^verbatim>\<open>requests.head\<close> and \<^verbatim>\<open>requests.get\<close>: the request is logged, the server answers.\<close>

definition send :: "env \<Rightarrow> request \<Rightarrow> world \<Rightarrow> reply \<times> world" where
  "send e r w = (server e (length (sent w)) r, w\<lparr>sent := sent w @ [r]\<rparr>)"

text \<open>\<^verbatim>\<open>Response.raise_for_status()\<close>: raises \<^verbatim>\<open>HTTPError\<close> on a 4xx or 5xx status.\<close>

definition raise_for_status :: "int \<Rightarrow> exn + unit" where
  "raise_for_status st = (if 400 \<le> st \<and> st < 600 then Inl RequestException else Inr ())"

text \<open>\<^verbatim>\<open>int(headers.get('content-length', 0))\<close>.\<close>

definition int_header :: "header_int \<Rightarrow> exn + int" where
  "int_header h = (case h of Absent \<Rightarrow> Inr 0 | Numeric n \<Rightarrow> Inr n | NonNumeric \<Rightarrow> Inl ValueError)"

subsection \<open>Planning the transfer (lines 30 to 42)\<close>

text \<open>The size probe, lines 34 to 36: the remote size, or the exception raised.\<close>

definition probe_size :: "env \<Rightarrow> args \<Rightarrow> world \<Rightarrow> (exn + int) \<times> world" where
  "probe_size e a w =
     (case send e (Head (url a)) w of
        (ConnectionFailed, w1) \<Rightarrow> (Inl RequestException, w1)
      | (Response st cl cs br, w1) \<Rightarrow>
          (case raise_for_status st of
             Inl ex \<Rightarrow> (Inl ex, w1)
           | Inr u \<Rightarrow> (int_header cl, w1)))"

text \<open>
  Mode and resume offset. Any exception inside the inner \<^verbatim>\<open>try\<close> is swallowed by
  \<^verbatim>\<open>except Exception: pass\<close> and leaves \<^verbatim>\<open>'wb'\<close> and \<open>0\<close>.
\<close>

definition plan_transfer :: "env \<Rightarrow> args \<Rightarrow> int \<Rightarrow> world \<Rightarrow> (mode \<times> int) \<times> world" where
  "plan_transfer e a attempt w =
     (if resume a \<and> dest_exists w \<and> attempt = 0 then
        (case probe_size e a w of
           (Inl ex, w1) \<Rightarrow> ((WB, 0), w1)
         | (Inr remote_size, w1) \<Rightarrow>
             (case stat_size w1 of
                Inl ex \<Rightarrow> ((WB, 0), w1)
              | Inr local_size \<Rightarrow>
                  if local_size < remote_size then ((AB, local_size), w1) else ((WB, 0), w1)))
      else ((WB, 0), w))"

subsection \<open>Streaming the body to the file (lines 44 to 61)\<close>

text \<open>
  The loop over the chunks: the file content, the \<^verbatim>\<open>downloaded\<close> counter and the
  callback's calls after it. An empty chunk is skipped; the callback is called when one
  was passed and \<^verbatim>\<open>total_size\<close> is not zero.
\<close>

fun write_chunks ::
  "bool \<Rightarrow> int \<Rightarrow> bytes list \<Rightarrow> bytes \<Rightarrow> int \<Rightarrow> (int \<times> int) list \<Rightarrow> bytes \<times> int \<times> (int \<times> int) list"
where
  "write_chunks cb total_size [] f downloaded calls = (f, downloaded, calls)"
| "write_chunks cb total_size (chunk # rest) f downloaded calls =
     (if chunk \<noteq> [] then
        write_chunks cb total_size rest (f @ chunk) (downloaded + int (length chunk))
          (if cb \<and> total_size \<noteq> 0
           then calls @ [(downloaded + int (length chunk), total_size)] else calls)
      else write_chunks cb total_size rest f downloaded calls)"

definition range_headers :: "int \<Rightarrow> (string \<times> string) list" where
  "range_headers resume_pos =
     (if resume_pos > 0 then [(''Range'', ''bytes='' @ str_int resume_pos @ ''-'')] else [])"

definition fetch :: "env \<Rightarrow> args \<Rightarrow> mode \<times> int \<Rightarrow> world \<Rightarrow> (exn + unit) \<times> world" where
  "fetch e a plan w =
     (case plan of (mode0, resume_pos0) \<Rightarrow>
      (case send e (Get (url a) (range_headers resume_pos0)) w of
         (ConnectionFailed, w1) \<Rightarrow> (Inl RequestException, w1)
       | (Response st cl cs br, w1) \<Rightarrow>
           (case raise_for_status st of
              Inl ex \<Rightarrow> (Inl ex, w1)
            | Inr u \<Rightarrow>
                (case (if resume_pos0 > 0 \<and> st = 200 then (WB, 0) else (mode0, resume_pos0)) of
                   (mode1, resume_pos) \<Rightarrow>
                (case int_header cl of
                   Inl ex \<Rightarrow> (Inl ex, w1)
                 | Inr len \<Rightarrow>
                     (case open_dest mode1 w1 of
                        Inl ex \<Rightarrow> (Inl ex, w1)
                      | Inr f0 \<Rightarrow>
                          (case write_chunks (progress_callback a) (len + resume_pos) cs f0
                                  resume_pos (progress_calls w1) of
                             (f, downloaded, calls) \<Rightarrow>
                               (if br then Inl RequestException else Inr (),
                                w1\<lparr>disk := InParent (Some f), progress_calls := calls\<rparr>))))))))"

subsection \<open>Verifying the hash (lines 63 to 70)\<close>

text \<open>
  \<^verbatim>\<open>iter(lambda: f.read(chunk_size), b'')\<close>: the chunks read from a file of the given
  content. \<^verbatim>\<open>read(0)\<close> returns \<^verbatim>\<open>b''\<close> at once, a negative size reads to the end of the
  file, and the iteration stops at the first empty read.
\<close>

function read_chunks :: "int \<Rightarrow> bytes \<Rightarrow> bytes list" where
  "read_chunks n data =
     (if n = 0 \<or> data = [] then []
      else if n < 0 then [data]
      else take (nat n) data # read_chunks n (drop (nat n) data))"
  by pat_completeness auto
termination
  by (relation "measure (\<lambda>(n, data). length data)") auto

declare read_chunks.simps [simp del]

text \<open>\<^verbatim>\<open>if expected_hash:\<close> holds for a string that is not empty.\<close>

definition hash_supplied :: "string option \<Rightarrow> bool" where
  "hash_supplied h = (case h of None \<Rightarrow> False | Some s \<Rightarrow> s \<noteq> [])"

definition hash_mismatch_msg :: "args \<Rightarrow> string" where
  "hash_mismatch_msg a = ''Hash mismatch for '' @ url a"

text \<open>
  \<^verbatim>\<open>file_hash.hexdigest()\<close> as line 68 calls it, with no argument, on a hash object that
  was fed the given bytes: an object of extendable output raises \<^verbatim>\<open>TypeError\<close> for the
  missing length.
\<close>

definition hexdigest :: "hash_object \<Rightarrow> bytes \<Rightarrow> exn + string" where
  "hexdigest file_hash fed =
     (case file_hash of Fixed digest \<Rightarrow> Inr (digest fed) | Extendable \<Rightarrow> Inl TypeError)"

definition verify_hash :: "env \<Rightarrow> args \<Rightarrow> world \<Rightarrow> (exn + unit) \<times> world" where
  "verify_hash e a w =
     (case expected_hash a of
        None \<Rightarrow> (Inr (), w)
      | Some expected \<Rightarrow>
          if expected = [] then (Inr (), w)
          else
            (case hashlib_new e (hash_algo a) of
               None \<Rightarrow> (Inl ValueError, w)
             | Some file_hash \<Rightarrow>
                 (case disk w of
                    InParent (Some data) \<Rightarrow>
                      (case hexdigest file_hash (concat (read_chunks (chunk_size a) data)) of
                         Inl ex \<Rightarrow> (Inl ex, w)
                       | Inr computed \<Rightarrow>
                           if computed \<noteq> expected then
                             (case unlink w of
                                Inl ex \<Rightarrow> (Inl ex, w)
                              | Inr w1 \<Rightarrow> (Inl (HashMismatchError (hash_mismatch_msg a)), w1))
                           else (Inr (), w))
                  | _ \<Rightarrow> (Inl OSError, w))))"

subsection \<open>The retry loop (lines 28 to 81)\<close>

text \<open>The body of the \<^verbatim>\<open>try\<close>, lines 30 to 72.\<close>

definition try_body :: "env \<Rightarrow> args \<Rightarrow> int \<Rightarrow> world \<Rightarrow> (exn + bool) \<times> world" where
  "try_body e a attempt w =
     (case plan_transfer e a attempt w of
        (plan, w1) \<Rightarrow>
          (case fetch e a plan w1 of
             (Inl ex, w2) \<Rightarrow> (Inl ex, w2)
           | (Inr u, w2) \<Rightarrow>
               (case verify_hash e a w2 of
                  (Inl ex, w3) \<Rightarrow> (Inl ex, w3)
                | (Inr v, w3) \<Rightarrow> (Inr True, w3))))"

text \<open>\<^verbatim>\<open>except (requests.RequestException, OSError, ValueError)\<close>.\<close>

fun caught :: "exn \<Rightarrow> bool" where
  "caught RequestException = True"
| "caught OSError = True"
| "caught ValueError = True"
| "caught TypeError = False"
| "caught (HashMismatchError m) = False"
| "caught (DownloadError m) = False"

definition exhausted_msg :: "args \<Rightarrow> string" where
  "exhausted_msg a =
     ''Failed to download '' @ url a @ '' after '' @ str_int (max_retries a) @ '' attempts''"

text \<open>
  The handler, lines 75 to 79: log, remove the file if there is one, raise on the last
  attempt. \<open>Inr ()\<close> is falling out of the handler into the next iteration.
\<close>

definition handler :: "args \<Rightarrow> int \<Rightarrow> exn \<Rightarrow> world \<Rightarrow> (exn + unit) \<times> world" where
  "handler a attempt ex w =
     (case (if dest_exists (w\<lparr>warnings := warnings w @ [(attempt + 1, ex)]\<rparr>)
            then unlink (w\<lparr>warnings := warnings w @ [(attempt + 1, ex)]\<rparr>)
            else Inr (w\<lparr>warnings := warnings w @ [(attempt + 1, ex)]\<rparr>)) of
        Inl ex' \<Rightarrow> (Inl ex', w\<lparr>warnings := warnings w @ [(attempt + 1, ex)]\<rparr>)
      | Inr w1 \<Rightarrow>
          if attempt = max_retries a - 1 then (Inl (DownloadError (exhausted_msg a)), w1)
          else (Inr (), w1))"

text \<open>\<^verbatim>\<open>for attempt in range(max_retries)\<close>, over the attempts still to run.\<close>

fun for_attempts :: "env \<Rightarrow> args \<Rightarrow> int list \<Rightarrow> world \<Rightarrow> (exn + bool) \<times> world" where
  "for_attempts e a [] w = (Inr False, w)"
| "for_attempts e a (attempt # rest) w =
     (case try_body e a attempt w of
        (Inr r, w1) \<Rightarrow> (Inr r, w1)
      | (Inl ex, w1) \<Rightarrow>
          if caught ex then
            (case handler a attempt ex w1 of
               (Inl ex', w2) \<Rightarrow> (Inl ex', w2)
             | (Inr u, w2) \<Rightarrow> for_attempts e a rest w2)
          else (Inl ex, w1))"

definition py_range :: "int \<Rightarrow> int list" where
  "py_range n = map int [0..<nat n]"

definition download_file :: "env \<Rightarrow> args \<Rightarrow> world \<Rightarrow> (exn + bool) \<times> world" where
  "download_file e a w =
     (case mkdir_parents e w of
        Inl ex \<Rightarrow> (Inl ex, w)
      | Inr w0 \<Rightarrow> for_attempts e a (py_range (max_retries a)) w0)"

subsection \<open>What the claims speak of\<close>

fun is_get :: "request \<Rightarrow> bool" where
  "is_get (Get u hs) = True"
| "is_get (Head u) = False"

text \<open>
  A reply on which the content request of an attempt raises: no connection, an error
  status for \<^verbatim>\<open>raise_for_status\<close>, a \<^verbatim>\<open>content-length\<close> that \<^verbatim>\<open>int\<close> rejects, or a
  stream that breaks.
\<close>

definition transient_reply :: "reply \<Rightarrow> bool" where
  "transient_reply r =
     (case r of
        ConnectionFailed \<Rightarrow> True
      | Response st cl cs br \<Rightarrow> (400 \<le> st \<and> st < 600) \<or> cl = NonNumeric \<or> br)"

subsection \<open>The fixtures of downloader-tests.py\<close>

definition test_url :: string where
  "test_url = ''http://example.com/test.txt''"

definition sample_file_content :: bytes where
  "sample_file_content = ''Hello, world! This is a test file content.''"

definition sample_file_sha1 :: string where
  "sample_file_sha1 = ''6f0644ab44e4e9a873fb2448cd1011081ae11321''"

text \<open>
  \<^verbatim>\<open>hashlib\<close> for the examples: \<^verbatim>\<open>sha1\<close> with the SHA-1 hex digests of the three byte
  strings the examples hash (the sample content, its first 10 bytes and the empty
  string; a string of zeros stands for the digest of any other input, which no example
  computes), \<^verbatim>\<open>shake_128\<close> as an algorithm of extendable output, and no other name.
\<close>

definition sha1_known :: "bytes \<Rightarrow> string" where
  "sha1_known data =
     (if data = sample_file_content then sample_file_sha1
      else if data = take 10 sample_file_content then ''8eeedf2b8e056b3448eb87d364adf945369ea61c''
      else if data = [] then ''da39a3ee5e6b4b0d3255bfef95601890afd80709''
      else ''0000000000000000000000000000000000000000'')"

definition test_hashlib :: "string \<Rightarrow> hash_object option" where
  "test_hashlib name =
     (if name = ''sha1'' then Some (Fixed sha1_known)
      else if name = ''shake_128'' then Some Extendable
      else None)"

text \<open>
  The mocked servers of the tests. A request that a test does not mock fails with a
  connection error. The body of 42 bytes comes as one chunk.
\<close>

fun mock_basic :: "nat \<Rightarrow> request \<Rightarrow> reply" where
  "mock_basic n (Head u) = ConnectionFailed"
| "mock_basic n (Get u hs) = Response 200 Absent [sample_file_content] False"

fun mock_error_500 :: "nat \<Rightarrow> request \<Rightarrow> reply" where
  "mock_error_500 n (Head u) = ConnectionFailed"
| "mock_error_500 n (Get u hs) = Response 500 Absent [] False"

fun mock_partial :: "nat \<Rightarrow> request \<Rightarrow> reply" where
  "mock_partial n (Head u) = Response 200 (Numeric 42) [] False"
| "mock_partial n (Get u hs) = Response 206 Absent [drop 10 sample_file_content] False"


fun mock_no_range :: "nat \<Rightarrow> request \<Rightarrow> reply" where
  "mock_no_range n (Head u) = Response 200 (Numeric 42) [] False"
| "mock_no_range n (Get u hs) = Response 200 Absent [sample_file_content] False"

definition mock_env :: "(nat \<Rightarrow> request \<Rightarrow> reply) \<Rightarrow> env" where
  "mock_env srv = \<lparr>can_mkdir = True, server = srv, hashlib_new = test_hashlib\<rparr>"

text \<open>The defaults of the signature of \<^verbatim>\<open>download_file\<close>.\<close>

definition default_args :: args where
  "default_args =
     \<lparr>url = test_url, expected_hash = None, hash_algo = ''sha1'', progress_callback = False,
      chunk_size = 8192, max_retries = 3, resume = True\<rparr>"

definition empty_dir :: world where
  "empty_dir = \<lparr>disk = InParent None, sent = [], progress_calls = [], warnings = []\<rparr>"

definition no_dir :: world where
  "no_dir = \<lparr>disk = MissingParent, sent = [], progress_calls = [], warnings = []\<rparr>"

definition complete_dir :: world where
  "complete_dir =
     \<lparr>disk = InParent (Some sample_file_content), sent = [], progress_calls = [],
      warnings = []\<rparr>"

definition partial_dir :: world where
  "partial_dir =
     \<lparr>disk = InParent (Some (take 10 sample_file_content)), sent = [], progress_calls = [],
      warnings = []\<rparr>"

section \<open>Properties\<close>

lemmas download_defs =
  download_file_def mkdir_parents_def py_range_def try_body_def plan_transfer_def probe_size_def
  fetch_def verify_hash_def handler_def send_def raise_for_status_def int_header_def
  open_dest_def unlink_def stat_size_def dest_exists_def range_headers_def exhausted_msg_def
  hash_mismatch_msg_def hexdigest_def hash_supplied_def transient_reply_def str_int_def str_nat.simps
  digit_char_def upt_conv_Cons read_chunks.simps

lemmas fixture_defs =
  test_url_def sample_file_content_def sample_file_sha1_def sha1_known_def test_hashlib_def
  mock_env_def default_args_def empty_dir_def no_dir_def partial_dir_def complete_dir_def

lemma py_range_nonpos: "n \<le> 0 \<Longrightarrow> py_range n = []"
  by (simp add: py_range_def)

subsection \<open>The stages of one attempt\<close>

lemma concat_read_chunks: "n \<noteq> 0 \<Longrightarrow> concat (read_chunks n data) = data"
proof (induction n data rule: read_chunks.induct)
  case (1 n data)
  show ?case
  proof (cases "data = []")
    case True
    then show ?thesis by (simp add: read_chunks.simps)
  next
    case False
    show ?thesis
    proof (cases "n < 0")
      case True
      with False show ?thesis by (simp add: read_chunks.simps)
    next
      case neg: False
      with False "1.prems" have "concat (read_chunks n (drop (nat n) data)) = drop (nat n) data"
        using "1.IH" by simp
      with False neg "1.prems" show ?thesis
        by (subst read_chunks.simps) simp
    qed
  qed
qed

lemma write_chunks_content:
  "fst (write_chunks cb total_size cs f downloaded calls) = f @ concat cs"
  by (induction cs arbitrary: f downloaded calls) simp_all

lemma probe_size_ok_iff:
  "fst (probe_size e a w) = Inr remote \<longleftrightarrow>
     (\<exists>st cl cs br. server e (length (sent w)) (Head (url a)) = Response st cl cs br
        \<and> \<not> (400 \<le> st \<and> st < 600) \<and> (cl = Absent \<and> remote = 0 \<or> cl = Numeric remote))"
  by (auto simp: probe_size_def send_def raise_for_status_def int_header_def
      split: reply.splits header_int.splits)

lemma probe_size_world: "probe_size e a w = (r, w1) \<Longrightarrow> w1 = w\<lparr>sent := sent w @ [Head (url a)]\<rparr>"
  by (auto simp: probe_size_def send_def split: reply.splits sum.splits)

lemma plan_transfer_world:
  "plan_transfer e a attempt w = (plan, w1) \<Longrightarrow>
     disk w1 = disk w \<and> progress_calls w1 = progress_calls w \<and> warnings w1 = warnings w
     \<and> (\<exists>hs. sent w1 = sent w @ hs \<and> (\<forall>r \<in> set hs. r = Head (url a)))"
  by (auto simp: plan_transfer_def split: if_splits prod.splits sum.splits dest!: probe_size_world)

lemma fetch_raises_caught: "fetch e a plan w = (Inl ex, w1) \<Longrightarrow> caught ex"
  by (auto simp: fetch_def send_def raise_for_status_def int_header_def open_dest_def
      split: prod.splits reply.splits sum.splits if_splits header_int.splits filesystem.splits)

lemma fetch_sent: "fetch e a plan w = (r, w1) \<Longrightarrow> sent w1 = sent w @ [Get (url a) (range_headers (snd plan))] \<and> warnings w1 = warnings w"
  by (auto simp: fetch_def send_def 
      split: prod.splits reply.splits sum.splits if_splits)

lemma verify_hash_ok:
  "verify_hash e a w = (Inr u, w1) \<Longrightarrow> w1 = w"
  by (auto simp: verify_hash_def unlink_def hexdigest_def
      split: option.splits if_splits filesystem.splits sum.splits hash_object.splits)

lemma verify_hash_ok_digest:
  "verify_hash e a w = (Inr u, w1) \<Longrightarrow> expected_hash a = Some h \<Longrightarrow> h \<noteq> [] \<Longrightarrow>
    \<exists>digest data. hashlib_new e (hash_algo a) = Some (Fixed digest) \<and> disk w = InParent (Some data)
      \<and> digest (concat (read_chunks (chunk_size a) data)) = h"
  by (auto simp: verify_hash_def unlink_def hexdigest_def
      split: option.splits if_splits filesystem.splits sum.splits hash_object.splits)

lemma verify_hash_uncaught:
  "verify_hash e a w = (Inl ex, w1) \<Longrightarrow> \<not> caught ex \<Longrightarrow> ex \<noteq> TypeError \<Longrightarrow>
     ex = HashMismatchError (hash_mismatch_msg a) \<and> \<not> dest_exists w1 \<and> sent w1 = sent w \<and> warnings w1 = warnings w"
  by (auto simp: verify_hash_def unlink_def dest_exists_def hexdigest_def
      split: option.splits if_splits filesystem.splits sum.splits hash_object.splits)

lemma verify_hash_sent:
  "verify_hash e a w = (r, w1) \<Longrightarrow> sent w1 = sent w \<and> warnings w1 = warnings w \<and> progress_calls w1 = progress_calls w"
  by (auto simp: verify_hash_def unlink_def hexdigest_def
      split: option.splits if_splits filesystem.splits sum.splits hash_object.splits)

lemma try_body_uncaught:
  "try_body e a attempt w = (Inl ex, w1) \<Longrightarrow> \<not> caught ex \<Longrightarrow> ex \<noteq> TypeError \<Longrightarrow>
     \<not> dest_exists w1 \<and> ex = HashMismatchError (hash_mismatch_msg a)"
  by (auto simp: try_body_def split: prod.splits sum.splits dest: fetch_raises_caught verify_hash_uncaught)

lemma try_body_success:
  assumes "try_body e a attempt w = (Inr True, w')"
  shows "\<exists>u. verify_hash e a w' = (Inr u, w')"
proof -
  from assms obtain plan w1 w2 u v where
    "fetch e a plan w1 = (Inr u, w2)" and vh: "verify_hash e a w2 = (Inr v, w')"
    by (auto simp: try_body_def split: prod.splits sum.splits)
  from vh have "w' = w2" by (rule verify_hash_ok)
  with vh show ?thesis by blast
qed

lemma try_body_sent:
  assumes "try_body e a attempt w = (r, w1)"
  shows "warnings w1 = warnings w \<and>
         (\<exists>reqs. sent w1 = sent w @ reqs \<and> length (filter is_get reqs) = 1
            \<and> (attempt \<noteq> 0 \<longrightarrow> reqs = [Get (url a) []]))"
proof -
  obtain plan wp where p: "plan_transfer e a attempt w = (plan, wp)"
    by (cases "plan_transfer e a attempt w")
  obtain rf wf where f: "fetch e a plan wp = (rf, wf)" by (cases "fetch e a plan wp")
  from p obtain hs where hs: "sent wp = sent w @ hs" "\<forall>r \<in> set hs. r = Head (url a)"
    and wp: "warnings wp = warnings w"
    by (blast dest: plan_transfer_world)
  from hs(2) have nohs: "filter is_get hs = []" by (auto simp: filter_empty_conv)
  from p have fresh: "attempt \<noteq> 0 \<Longrightarrow> plan = (WB, 0) \<and> wp = w"
    by (auto simp: plan_transfer_def)
  from f have sf: "sent wf = sent wp @ [Get (url a) (range_headers (snd plan))]" "warnings wf = warnings wp"
    by (auto dest: fetch_sent)
  have w1: "sent w1 = sent wf \<and> warnings w1 = warnings wf"
  proof (cases rf)
    case (Inl ex)
    with assms p f show ?thesis by (simp add: try_body_def)
  next
    case (Inr u)
    obtain rv wv where v: "verify_hash e a wf = (rv, wv)" by (cases "verify_hash e a wf")
    with assms p f Inr have "w1 = wv" by (auto simp: try_body_def split: sum.splits)
    with v show ?thesis by (auto dest: verify_hash_sent)
  qed
  show ?thesis
  proof (intro conjI exI[of _ "hs @ [Get (url a) (range_headers (snd plan))]"] impI)
    show "warnings w1 = warnings w" using w1 sf wp by simp
    show "sent w1 = sent w @ hs @ [Get (url a) (range_headers (snd plan))]" using w1 sf hs by simp
    show "length (filter is_get (hs @ [Get (url a) (range_headers (snd plan))])) = 1"
      using nohs by simp
    show "hs @ [Get (url a) (range_headers (snd plan))] = [Get (url a) []]" if "attempt \<noteq> 0"
      using fresh[OF that] hs(1) by (simp add: range_headers_def)
  qed
qed

lemma handler_removes: "handler a attempt ex w = (r, w1) \<Longrightarrow> \<not> dest_exists w1"
  by (auto simp: handler_def dest_exists_def unlink_def split: if_splits sum.splits filesystem.splits option.splits)

lemma handler_result:
  "handler a attempt ex w = (r, w1) \<Longrightarrow>
     r = (if attempt = max_retries a - 1 then Inl (DownloadError (exhausted_msg a)) else Inr ())
     \<and> sent w1 = sent w \<and> warnings w1 = warnings w @ [(attempt + 1, ex)] \<and> progress_calls w1 = progress_calls w
     \<and> disk w1 = (case disk w of MissingParent \<Rightarrow> MissingParent | InParent d \<Rightarrow> InParent None)"
  by (auto simp: handler_def dest_exists_def unlink_def split: if_splits sum.splits filesystem.splits option.splits)

subsection \<open>The loop over the attempts\<close>

lemma for_attempts_raise_removes:
  "for_attempts e a xs w = (Inl ex, w') \<Longrightarrow> ex \<noteq> TypeError \<Longrightarrow>
     \<not> dest_exists w' \<and>
     (ex = HashMismatchError (hash_mismatch_msg a) \<or> ex = DownloadError (exhausted_msg a))"
proof (induction xs arbitrary: w)
  case Nil
  then show ?case by simp
next
  case (Cons attempt rest)
  obtain r w1 where tb: "try_body e a attempt w = (r, w1)" by (cases "try_body e a attempt w")
  show ?case
  proof (cases r)
    case (Inr b)
    with tb Cons.prems show ?thesis by simp
  next
    case (Inl ex1)
    show ?thesis
    proof (cases "caught ex1")
      case False
      with tb Inl Cons.prems have "w' = w1" "ex = ex1" by simp_all
      with tb Inl False Cons.prems(2) show ?thesis by (auto dest: try_body_uncaught)
    next
      case True
      obtain r2 w2 where h: "handler a attempt ex1 w1 = (r2, w2)" by (cases "handler a attempt ex1 w1")
      show ?thesis
      proof (cases r2)
        case (Inl ex2)
        with tb \<open>r = Inl ex1\<close> True h Cons.prems have "w' = w2" "ex = ex2" by simp_all
        moreover from h Inl have "ex2 = DownloadError (exhausted_msg a)"
          by (auto dest!: handler_result split: if_splits)
        ultimately show ?thesis using h by (auto dest: handler_removes)
      next
        case (Inr u)
        with tb \<open>r = Inl ex1\<close> True h Cons.prems have "for_attempts e a rest w2 = (Inl ex, w')" by simp
        then show ?thesis using Cons.prems(2) by (rule Cons.IH)
      qed
    qed
  qed
qed

lemma for_attempts_success:
  "for_attempts e a xs w = (Inr True, w') \<Longrightarrow> \<exists>attempt w0. try_body e a attempt w0 = (Inr True, w')"
proof (induction xs arbitrary: w)
  case Nil
  then show ?case by simp
next
  case (Cons attempt rest)
  obtain r w1 where tb: "try_body e a attempt w = (r, w1)" by (cases "try_body e a attempt w")
  show ?case
  proof (cases r)
    case (Inr b)
    with tb Cons.prems have "try_body e a attempt w = (Inr True, w')" by simp
    then show ?thesis by blast
  next
    case (Inl ex1)
    with tb Cons.prems obtain w2 where "for_attempts e a rest w2 = (Inr True, w')"
      by (auto split: if_splits prod.splits sum.splits)
    then show ?thesis by (rule Cons.IH)
  qed
qed

lemma attempts_all_fail:
  assumes step: "\<forall>attempt w r w1. try_body e a attempt w = (r, w1) \<longrightarrow> (\<exists>ex. r = Inl ex \<and> caught ex)"
    and "i < n" and "int n = max_retries a"
  shows "\<exists>w' reqs. for_attempts e a (map int [i..<n]) w = (Inl (DownloadError (exhausted_msg a)), w')
           \<and> \<not> dest_exists w'
           \<and> sent w' = sent w @ reqs \<and> length (filter is_get reqs) = n - i
           \<and> (0 < i \<longrightarrow> reqs = replicate (n - i) (Get (url a) []))
           \<and> map fst (warnings w') = map fst (warnings w) @ map (\<lambda>k. int k + 1) [i..<n]"
  using assms(2)
proof (induction "n - i" arbitrary: i w)
  case 0
  then show ?case by simp
next
  case (Suc k)
  then have upt: "[i..<n] = i # [Suc i..<n]" by (simp add: upt_conv_Cons)
  obtain r w1 where tb: "try_body e a (int i) w = (r, w1)" by (cases "try_body e a (int i) w")
  from step tb obtain ex where ex: "r = Inl ex" "caught ex" by blast
  from try_body_sent[OF tb] obtain reqs1 where s1: "warnings w1 = warnings w"
      "sent w1 = sent w @ reqs1" "length (filter is_get reqs1) = 1"
      "int i \<noteq> 0 \<longrightarrow> reqs1 = [Get (url a) []]"
    by blast
  obtain rh w2 where h: "handler a (int i) ex w1 = (rh, w2)" by (cases "handler a (int i) ex w1")
  from handler_result[OF h] have hr:
      "rh = (if int i = max_retries a - 1 then Inl (DownloadError (exhausted_msg a)) else Inr ())"
      "sent w2 = sent w1" "warnings w2 = warnings w1 @ [(int i + 1, ex)]"
    by simp_all
  from h have gone: "\<not> dest_exists w2" by (rule handler_removes)
  show ?case
  proof (cases "Suc i = n")
    case True
    with assms(3) have last: "int i = max_retries a - 1" by auto
    from True have "[Suc i..<n] = []" by simp
    with upt tb ex h hr last have "for_attempts e a (map int [i..<n]) w =
        (Inl (DownloadError (exhausted_msg a)), w2)" by simp
    moreover from True have "n - i = 1" by simp
    moreover from True have "[i..<n] = [i]" using upt by simp
    ultimately show ?thesis using gone hr s1 by (intro exI[of _ w2] exI[of _ reqs1]) auto
  next
    case False
    with Suc.prems have lt: "Suc i < n" by simp
    with assms(3) have notlast: "int i \<noteq> max_retries a - 1" by auto
    from Suc.hyps(2) lt have "k = n - Suc i" by simp
    from Suc.hyps(1)[OF this lt, of w2] obtain w' reqs where IH:
      "for_attempts e a (map int [Suc i..<n]) w2 = (Inl (DownloadError (exhausted_msg a)), w')"
      "\<not> dest_exists w'" "sent w' = sent w2 @ reqs" "length (filter is_get reqs) = n - Suc i"
      "reqs = replicate (n - Suc i) (Get (url a) [])"
      "map fst (warnings w') = map fst (warnings w2) @ map (\<lambda>k. int k + 1) [Suc i..<n]"
      by auto
    from upt tb ex h hr notlast IH(1) have "for_attempts e a (map int [i..<n]) w =
        (Inl (DownloadError (exhausted_msg a)), w')" by simp
    moreover have "sent w' = sent w @ (reqs1 @ reqs)" using IH(3) hr s1 by simp
    moreover have "length (filter is_get (reqs1 @ reqs)) = n - i" using IH(4) s1(3) lt by simp
    moreover have "0 < i \<longrightarrow> reqs1 @ reqs = replicate (n - i) (Get (url a) [])"
    proof
      assume "0 < i"
      with s1(4) have "reqs1 = [Get (url a) []]" by simp
      moreover from lt have "n - i = Suc (n - Suc i)" by simp
      ultimately show "reqs1 @ reqs = replicate (n - i) (Get (url a) [])" using IH(5) by simp
    qed
    moreover have "map fst (warnings w') = map fst (warnings w) @ map (\<lambda>k. int k + 1) [i..<n]"
      using IH(6) hr s1 upt by simp
    ultimately show ?thesis using IH(2) by blast
  qed
qed

lemma fetch_transient:
  assumes "\<forall>n hs. transient_reply (server e n (Get (url a) hs))"
    and "fetch e a plan w = (r, w1)"
  shows "\<exists>ex. r = Inl ex \<and> caught ex"
proof (cases r)
  case (Inl ex)
  with assms(2) show ?thesis by (auto dest: fetch_raises_caught)
next
  case (Inr u)
  obtain m p where plan: "plan = (m, p)" by (cases plan)
  from assms(1) have "transient_reply (server e (length (sent w)) (Get (url a) (range_headers p)))"
    by blast
  with assms(2) plan Inr have False
    by (auto simp: fetch_def send_def transient_reply_def raise_for_status_def int_header_def
        split: reply.splits prod.splits sum.splits if_splits header_int.splits)
  then show ?thesis ..
qed

lemma try_body_transient:
  assumes "\<forall>n hs. transient_reply (server e n (Get (url a) hs))"
    and "try_body e a attempt w = (r, w1)"
  shows "\<exists>ex. r = Inl ex \<and> caught ex"
proof -
  obtain plan wp where p: "plan_transfer e a attempt w = (plan, wp)"
    by (cases "plan_transfer e a attempt w")
  obtain rf wf where f: "fetch e a plan wp = (rf, wf)" by (cases "fetch e a plan wp")
  from fetch_transient[OF assms(1) f] obtain ex where "rf = Inl ex" "caught ex" by blast
  with assms(2) p f show ?thesis by (auto simp: try_body_def)
qed

lemma try_body_bad_algo:
  assumes "hash_supplied (expected_hash a)" and "hashlib_new e (hash_algo a) = None"
    and "try_body e a attempt w = (r, w1)"
  shows "\<exists>ex. r = Inl ex \<and> caught ex"
proof -
  obtain plan wp where p: "plan_transfer e a attempt w = (plan, wp)"
    by (cases "plan_transfer e a attempt w")
  obtain rf wf where f: "fetch e a plan wp = (rf, wf)" by (cases "fetch e a plan wp")
  show ?thesis
  proof (cases rf)
    case (Inl ex)
    with f have "caught ex" by (auto dest: fetch_raises_caught)
    with assms(3) p f Inl show ?thesis by (auto simp: try_body_def)
  next
    case (Inr u)
    from assms(1,2) have "verify_hash e a wf = (Inl ValueError, wf)"
      by (auto simp: verify_hash_def hash_supplied_def split: option.splits)
    with assms(3) p f Inr show ?thesis by (auto simp: try_body_def)
  qed
qed

subsection \<open>Success and the expected hash\<close>


text \<open>
  What holds of every call with a chunk size other than zero: when it returns \<^verbatim>\<open>True\<close>
  and an expected hash was supplied (a string that \<^verbatim>\<open>if expected_hash:\<close> takes as true),
  the hash algorithm is one of fixed digest length that \<^verbatim>\<open>hashlib\<close> knows, the destination
  is a file, and the hex digest of its content under that algorithm is the expected
  hash.
\<close>

theorem verified_download_matches_expected_hash:
  assumes "download_file e a w = (Inr True, w')"
    and "expected_hash a = Some h" and "h \<noteq> []" and "chunk_size a \<noteq> 0"
  shows "\<exists>digest data. hashlib_new e (hash_algo a) = Some (Fixed digest)
           \<and> disk w' = InParent (Some data) \<and> digest data = h"
proof -
  from assms(1) obtain w0 where "for_attempts e a (py_range (max_retries a)) w0 = (Inr True, w')"
    by (auto simp: download_file_def split: sum.splits)
  then obtain attempt w1 where "try_body e a attempt w1 = (Inr True, w')"
    by (blast dest: for_attempts_success)
  then obtain u where "verify_hash e a w' = (Inr u, w')"
    by (blast dest: try_body_success)
  from verify_hash_ok_digest [OF this assms(2,3)] obtain digest data where
    "hashlib_new e (hash_algo a) = Some (Fixed digest)" "disk w' = InParent (Some data)"
    "digest (concat (read_chunks (chunk_size a) data)) = h"
    by blast
  with assms(4) show ?thesis by (simp add: concat_read_chunks)
qed

text \<open>The run of \<^verbatim>\<open>test_download_with_hash_success\<close>.\<close>

theorem verified_download_matches_expected_hash_witness:
  "download_file (mock_env mock_basic) (default_args\<lparr>expected_hash := Some sample_file_sha1\<rparr>)
       empty_dir =
     (Inr True,
      \<lparr>disk = InParent (Some sample_file_content), sent = [Get test_url []],
       progress_calls = [], warnings = []\<rparr>)
   \<and> (\<exists>digest data. test_hashlib ''sha1'' = Some (Fixed digest)
          \<and> InParent (Some sample_file_content) = InParent (Some data)
          \<and> digest data = sample_file_sha1)"
proof -
  have run: "download_file (mock_env mock_basic)
       (default_args\<lparr>expected_hash := Some sample_file_sha1\<rparr>) empty_dir =
     (Inr True,
      \<lparr>disk = InParent (Some sample_file_content), sent = [Get test_url []],
       progress_calls = [], warnings = []\<rparr>)"
    by (simp add: download_defs fixture_defs)
  from verified_download_matches_expected_hash [OF run, of sample_file_sha1]
  have "\<exists>digest data. test_hashlib ''sha1'' = Some (Fixed digest)
          \<and> InParent (Some sample_file_content) = InParent (Some data)
          \<and> digest data = sample_file_sha1"
    by (simp add: default_args_def mock_env_def sample_file_sha1_def)
  with run show ?thesis by blast
qed

subsection \<open>No file after a failure\<close>

text \<open>
  Claim C2, at a call that asks for the digest under \<^verbatim>\<open>shake_128\<close>:
  \<^verbatim>\<open>hashlib.new('shake_128')\<close> succeeds, \<^verbatim>\<open>hexdigest()\<close> at line 68 raises \<^verbatim>\<open>TypeError\<close>,
  line 74 does not catch it, and the call fails with the 42 bytes downloaded still at
  the destination.
\<close>

theorem uncaught_type_error_leaves_file:
  "download_file (mock_env mock_basic)
       (default_args\<lparr>expected_hash := Some sample_file_sha1, hash_algo := ''shake_128''\<rparr>)
       empty_dir =
     (Inl TypeError,
      \<lparr>disk = InParent (Some sample_file_content), sent = [Get test_url []],
       progress_calls = [], warnings = []\<rparr>)
   \<and> dest_exists
        \<lparr>disk = InParent (Some sample_file_content), sent = [Get test_url []],
         progress_calls = [], warnings = []\<rparr>"
  by (simp add: download_defs fixture_defs)

text \<open>
  What holds of every call: when \<^verbatim>\<open>download_file\<close> raises anything but that \<^verbatim>\<open>TypeError\<close>,
  the exception is the \<^verbatim>\<open>OSError\<close> of a parent directory that cannot be created (setup),
  \<^verbatim>\<open>HashMismatchError\<close> (integrity) or the \<^verbatim>\<open>DownloadError\<close> of the last attempt (retries
  exhausted), and the destination does not exist afterwards.
\<close>

theorem failed_download_leaves_no_file:
  assumes "download_file e a w = (Inl ex, w')" and "ex \<noteq> TypeError"
  shows "\<not> dest_exists w' \<and>
         (ex = OSError \<or> ex = HashMismatchError (''Hash mismatch for '' @ url a)
          \<or> ex = DownloadError (''Failed to download '' @ url a @ '' after '' @
                                 str_int (max_retries a) @ '' attempts''))"
proof (cases "mkdir_parents e w")
  case (Inl ex0)
  with assms(1) have "w' = w" "ex = ex0" by (simp_all add: download_file_def)
  moreover from Inl have "disk w = MissingParent" "ex0 = OSError"
    by (auto simp: mkdir_parents_def split: filesystem.splits if_splits)
  ultimately show ?thesis by (simp add: dest_exists_def)
next
  case (Inr w0)
  with assms(1) have "for_attempts e a (py_range (max_retries a)) w0 = (Inl ex, w')"
    by (simp add: download_file_def)
  from for_attempts_raise_removes [OF this assms(2)] show ?thesis
    by (auto simp: hash_mismatch_msg_def exhausted_msg_def)
qed

text \<open>
  The server of \<^verbatim>\<open>test_download_max_retries_exceeded\<close>, with a partial file at the
  destination before the call.
\<close>

theorem failed_download_leaves_no_file_witness:
  "download_file (mock_env mock_error_500) default_args partial_dir =
     (Inl (DownloadError ''Failed to download http://example.com/test.txt after 3 attempts''),
      \<lparr>disk = InParent None,
       sent = [Head test_url, Get test_url [], Get test_url [], Get test_url []],
       progress_calls = [],
       warnings = [(1, RequestException), (2, RequestException), (3, RequestException)]\<rparr>)
   \<and> \<not> dest_exists
        \<lparr>disk = InParent None,
         sent = [Head test_url, Get test_url [], Get test_url [], Get test_url []],
         progress_calls = [],
         warnings = [(1, RequestException), (2, RequestException), (3, RequestException)]\<rparr>"
proof -
  have run: "download_file (mock_env mock_error_500) default_args partial_dir =
     (Inl (DownloadError ''Failed to download http://example.com/test.txt after 3 attempts''),
      \<lparr>disk = InParent None,
       sent = [Head test_url, Get test_url [], Get test_url [], Get test_url []],
       progress_calls = [],
       warnings = [(1, RequestException), (2, RequestException), (3, RequestException)]\<rparr>)"
    by (simp add: download_defs fixture_defs)
  from failed_download_leaves_no_file [OF run] run show ?thesis by simp
qed

subsection \<open>A hash mismatch ends the call\<close>

text \<open>
  Claim C3. On an attempt, whichever it is and however many are still to run, whose
  transfer completes and whose file has a digest other than the supplied expected hash,
  the loop ends at once with \<^verbatim>\<open>HashMismatchError\<close>: the state is the one the transfer left,
  with the file removed, so no further request is issued and nothing is logged.
\<close>

theorem hash_mismatch_stops_retrying:
  assumes "plan_transfer e a attempt w = (plan, w1)"
    and "fetch e a plan w1 = (Inr (), w2)"
    and "expected_hash a = Some h" and "h \<noteq> []"
    and "hashlib_new e (hash_algo a) = Some (Fixed digest)"
    and "disk w2 = InParent (Some data)"
    and "digest (concat (read_chunks (chunk_size a) data)) \<noteq> h"
  shows "for_attempts e a (attempt # rest) w =
           (Inl (HashMismatchError (''Hash mismatch for '' @ url a)), w2\<lparr>disk := InParent None\<rparr>)"
proof -
  from assms(3-7) have "verify_hash e a w2 =
      (Inl (HashMismatchError (hash_mismatch_msg a)), w2\<lparr>disk := InParent None\<rparr>)"
    by (simp add: verify_hash_def unlink_def hexdigest_def)
  with assms(1,2) have "try_body e a attempt w =
      (Inl (HashMismatchError (hash_mismatch_msg a)), w2\<lparr>disk := InParent None\<rparr>)"
    by (simp add: try_body_def)
  then show ?thesis by (simp add: hash_mismatch_msg_def)
qed

text \<open>The run of \<^verbatim>\<open>test_download_with_hash_failure\<close>, two attempts still to come.\<close>

theorem hash_mismatch_stops_retrying_witness:
  "for_attempts (mock_env mock_basic) (default_args\<lparr>expected_hash := Some ''wronghash''\<rparr>)
       [0, 1, 2] empty_dir =
     (Inl (HashMismatchError ''Hash mismatch for http://example.com/test.txt''),
      \<lparr>disk = InParent None, sent = [Get test_url []], progress_calls = [], warnings = []\<rparr>)"
proof -
  let ?e = "mock_env mock_basic"
  let ?a = "default_args\<lparr>expected_hash := Some ''wronghash''\<rparr>"
  let ?w2 = "\<lparr>disk = InParent (Some sample_file_content), sent = [Get test_url []],
              progress_calls = [], warnings = []\<rparr>"
  have p: "plan_transfer ?e ?a 0 empty_dir = ((WB, 0), empty_dir)"
    by (simp add: plan_transfer_def dest_exists_def empty_dir_def)
  have f: "fetch ?e ?a (WB, 0) empty_dir = (Inr (), ?w2)"
    by (simp add: download_defs fixture_defs)
  have h: "expected_hash ?a = Some ''wronghash''" "''wronghash'' \<noteq> []"
    by simp_all
  have l: "hashlib_new ?e (hash_algo ?a) = Some (Fixed sha1_known)"
    by (simp add: fixture_defs)
  have d: "disk ?w2 = InParent (Some sample_file_content)"
    by simp
  have m: "sha1_known (concat (read_chunks (chunk_size ?a) sample_file_content)) \<noteq> ''wronghash''"
    by (simp add: concat_read_chunks fixture_defs)
  from hash_mismatch_stops_retrying [OF p f h l d m, of "[1, 2]"] show ?thesis
    by (simp add: fixture_defs)
qed

subsection \<open>Exhausting the retries\<close>

text \<open>
  Claim C4. With \<^verbatim>\<open>max_retries\<close> at least 1, the parent directory there or created, and a
  server whose every reply to a content request is a transient failure,
  \<^verbatim>\<open>download_file\<close> raises \<^verbatim>\<open>DownloadError\<close> with the message naming the URL and
  \<^verbatim>\<open>max_retries\<close>; it has then issued exactly \<^verbatim>\<open>max_retries\<close> content requests and logged
  the attempts 1 to \<^verbatim>\<open>max_retries\<close>.
\<close>

theorem exhausted_after_max_retries:
  assumes "1 \<le> max_retries a" and "mkdir_parents e w = Inr w0"
    and "\<forall>n hs. transient_reply (server e n (Get (url a) hs))"
  shows "\<exists>w' reqs. download_file e a w =
           (Inl (DownloadError (''Failed to download '' @ url a @ '' after '' @
                   str_int (max_retries a) @ '' attempts'')), w')
         \<and> sent w' = sent w @ reqs \<and> length (filter is_get reqs) = nat (max_retries a)
         \<and> map fst (warnings w') = map fst (warnings w) @ map (\<lambda>k. int k + 1) [0..<nat (max_retries a)]"
proof -
  from assms(1) have n: "0 < nat (max_retries a)" "int (nat (max_retries a)) = max_retries a"
    by simp_all
  from assms(2) have w0: "sent w0 = sent w" "warnings w0 = warnings w"
    by (auto simp: mkdir_parents_def split: filesystem.splits if_splits)
  have step: "\<forall>attempt w r w1. try_body e a attempt w = (r, w1) \<longrightarrow> (\<exists>ex. r = Inl ex \<and> caught ex)"
    using try_body_transient[OF assms(3)] by blast
  from attempts_all_fail[OF step n, of w0]
  obtain w' reqs where
    "for_attempts e a (map int [0..<nat (max_retries a)]) w0 = (Inl (DownloadError (exhausted_msg a)), w')"
    "sent w' = sent w0 @ reqs" "length (filter is_get reqs) = nat (max_retries a) - 0"
    "map fst (warnings w') = map fst (warnings w0) @ map (\<lambda>k. int k + 1) [0..<nat (max_retries a)]"
    by blast
  with assms(2) w0 show ?thesis
    by (simp add: download_file_def py_range_def exhausted_msg_def)
qed

text \<open>The run of \<^verbatim>\<open>test_download_max_retries_exceeded\<close>.\<close>

theorem exhausted_after_max_retries_witness:
  "(\<forall>n hs. transient_reply (mock_error_500 n (Get test_url hs)))
   \<and> (\<exists>w' reqs. download_file (mock_env mock_error_500) default_args empty_dir =
          (Inl (DownloadError ''Failed to download http://example.com/test.txt after 3 attempts''), w')
        \<and> sent w' = reqs \<and> length (filter is_get reqs) = 3
        \<and> map fst (warnings w') = [1, 2, 3])"
proof -
  have t: "\<forall>n hs. transient_reply (server (mock_env mock_error_500) n (Get (url default_args) hs))"
    by (simp add: transient_reply_def mock_env_def)
  have r: "1 \<le> max_retries default_args"
    by (simp add: default_args_def)
  have m: "mkdir_parents (mock_env mock_error_500) empty_dir = Inr empty_dir"
    by (simp add: mkdir_parents_def empty_dir_def)
  from exhausted_after_max_retries [OF r m t] t show ?thesis
    by (simp add: fixture_defs str_int_def str_nat.simps digit_char_def upt_conv_Cons)
qed

subsection \<open>The transfer planner\<close>

text \<open>
  Claim C5. The plan is append mode at the local file size exactly when resume is
  enabled, it is the first attempt, the destination exists, the size probe succeeds and
  the local size is below the probed size; in every other case (resume disabled, a later
  attempt, no destination, a failed probe, a local size not below the remote one) it is
  overwrite mode at offset 0. The probe succeeds exactly when the server answers the
  \<^verbatim>\<open>HEAD\<close> request with a status that is no error and a \<^verbatim>\<open>content-length\<close> that is absent
  (read as 0) or a number.
\<close>

theorem plan_transfer_resumes_exactly_when:
  "(resume a \<and> attempt = 0 \<and> disk w = InParent (Some data)
      \<and> fst (probe_size e a w) = Inr remote \<and> int (length data) < remote
      \<longrightarrow> fst (plan_transfer e a attempt w) = (AB, int (length data)))
   \<and> (\<not> resume a \<or> \<not> dest_exists w \<or> attempt \<noteq> 0
       \<or> (\<exists>ex. fst (probe_size e a w) = Inl ex)
       \<or> (\<exists>data remote. disk w = InParent (Some data) \<and> fst (probe_size e a w) = Inr remote
             \<and> remote \<le> int (length data))
      \<longrightarrow> fst (plan_transfer e a attempt w) = (WB, 0))
   \<and> (fst (probe_size e a w) = Inr remote \<longleftrightarrow>
        (\<exists>st cl cs br. server e (length (sent w)) (Head (url a)) = Response st cl cs br
           \<and> \<not> (400 \<le> st \<and> st < 600) \<and> (cl = Absent \<and> remote = 0 \<or> cl = Numeric remote)))"
proof (intro conjI impI)
  obtain r w1 where p: "probe_size e a w = (r, w1)" by (cases "probe_size e a w")
  then have d1: "disk w1 = disk w" by (auto simp: probe_size_def send_def split: reply.splits sum.splits)
  show "fst (plan_transfer e a attempt w) = (AB, int (length data))"
    if "resume a \<and> attempt = 0 \<and> disk w = InParent (Some data)
      \<and> fst (probe_size e a w) = Inr remote \<and> int (length data) < remote"
    using that p d1 by (simp add: plan_transfer_def dest_exists_def stat_size_def)
  show "fst (plan_transfer e a attempt w) = (WB, 0)"
    if "\<not> resume a \<or> \<not> dest_exists w \<or> attempt \<noteq> 0
       \<or> (\<exists>ex. fst (probe_size e a w) = Inl ex)
       \<or> (\<exists>data remote. disk w = InParent (Some data) \<and> fst (probe_size e a w) = Inr remote
             \<and> remote \<le> int (length data))"
    using that p d1
    by (auto simp: plan_transfer_def stat_size_def split: sum.splits filesystem.splits option.splits)
  show "fst (probe_size e a w) = Inr remote \<longleftrightarrow>
        (\<exists>st cl cs br. server e (length (sent w)) (Head (url a)) = Response st cl cs br
           \<and> \<not> (400 \<le> st \<and> st < 600) \<and> (cl = Absent \<and> remote = 0 \<or> cl = Numeric remote))"
    by (rule probe_size_ok_iff)
qed

text \<open>
  The setting of \<^verbatim>\<open>test_download_resume_from_partial\<close>: 10 bytes on disk, 42 on the
  server. The first attempt resumes at 10, a second one would not.
\<close>

theorem plan_transfer_resumes_exactly_when_witness:
  "fst (probe_size (mock_env mock_partial) default_args partial_dir) = Inr 42
   \<and> fst (plan_transfer (mock_env mock_partial) default_args 0 partial_dir) = (AB, 10)
   \<and> fst (plan_transfer (mock_env mock_partial) default_args 1 partial_dir) = (WB, 0)"
proof -
  have probe: "fst (probe_size (mock_env mock_partial) default_args partial_dir) = Inr 42"
    by (simp add: download_defs fixture_defs)
  have pre: "resume default_args" "disk partial_dir = InParent (Some (take 10 sample_file_content))"
      "int (length (take 10 sample_file_content)) < 42"
    by (simp_all add: fixture_defs)
  from plan_transfer_resumes_exactly_when
    [where e = "mock_env mock_partial" and a = default_args and w = partial_dir
       and attempt = 0 and data = "take 10 sample_file_content" and remote = 42]
    probe pre
  have first: "fst (plan_transfer (mock_env mock_partial) default_args 0 partial_dir) =
      (AB, int (length (take 10 sample_file_content)))"
    by blast
  from plan_transfer_resumes_exactly_when
    [where e = "mock_env mock_partial" and a = default_args and w = partial_dir
       and attempt = 1 and remote = 42]
  have later: "fst (plan_transfer (mock_env mock_partial) default_args 1 partial_dir) = (WB, 0)"
    by simp
  from probe first later show ?thesis by (simp add: sample_file_content_def)
qed

subsection \<open>A server that ignores the range\<close>

text \<open>
  Claim C6. Resume is enabled, the destination holds \<open>K > 0\<close> bytes, the probe reports a
  larger size, and the server answers the range request of the first attempt with status
  200 and a complete body. Then the plan was to append at offset \<open>K\<close>, and yet the call
  returns \<^verbatim>\<open>True\<close> with the destination holding exactly the body sent (not the old bytes
  followed by it), the progress reported from offset 0 against the declared length
  alone; the hash, when one is supplied, is that of the body.
\<close>

theorem ignored_range_overwrites:
  assumes "resume a" and "1 \<le> max_retries a"
    and "disk w = InParent (Some old)" and "old \<noteq> []"
    and "server e (length (sent w)) (Head (url a)) = Response hst (Numeric remote) hcs hbr"
    and "\<not> (400 \<le> hst \<and> hst < 600)" and "int (length old) < remote"
    and "server e (Suc (length (sent w)))
           (Get (url a) [(''Range'', ''bytes='' @ str_int (int (length old)) @ ''-'')])
         = Response 200 cl cs False"
    and "int_header cl = Inr len"
    and "\<not> hash_supplied (expected_hash a) \<or>
         (\<exists>digest. hashlib_new e (hash_algo a) = Some (Fixed digest)
            \<and> expected_hash a = Some (digest (concat (read_chunks (chunk_size a) (concat cs)))))"
  shows "fst (plan_transfer e a 0 w) = (AB, int (length old))
       \<and> (\<exists>w'. download_file e a w = (Inr True, w')
            \<and> disk w' = InParent (Some (concat cs))
            \<and> progress_calls w' =
                snd (snd (write_chunks (progress_callback a) len cs [] 0 (progress_calls w))))"
proof -
  let ?w1 = "w\<lparr>sent := sent w @ [Head (url a)]\<rparr>"
  let ?k = "int (length old)"
  have k: "0 < ?k" using assms(4) by simp
  have plan: "plan_transfer e a 0 w = ((AB, ?k), ?w1)"
    using assms(1,3,5,6,7)
    by (simp add: plan_transfer_def dest_exists_def probe_size_def send_def raise_for_status_def
        int_header_def stat_size_def)
  obtain f d calls where wc: "write_chunks (progress_callback a) len cs [] 0 (progress_calls w) = (f, d, calls)"
    by (cases "write_chunks (progress_callback a) len cs [] 0 (progress_calls w)")
  then have f: "f = concat cs" using write_chunks_content[of "progress_callback a" len cs "[]" 0 "progress_calls w"]
    by simp
  let ?w2 = "?w1\<lparr>sent := sent ?w1 @ [Get (url a) (range_headers ?k)],
                disk := InParent (Some f), progress_calls := calls\<rparr>"
  have fetch: "fetch e a (AB, ?k) ?w1 = (Inr (), ?w2)"
    using assms(3,8,9) k wc
    by (simp add: fetch_def send_def range_headers_def raise_for_status_def open_dest_def)
  have verify: "verify_hash e a ?w2 = (Inr (), ?w2)"
    using assms(10) f
    by (auto simp: verify_hash_def hash_supplied_def hexdigest_def split: option.splits)
  have "try_body e a 0 w = (Inr True, ?w2)"
    using plan fetch verify by (simp add: try_body_def)
  moreover from assms(2) have "py_range (max_retries a) = 0 # map int [Suc 0..<nat (max_retries a)]"
    by (simp add: py_range_def upt_conv_Cons)
  moreover have "mkdir_parents e w = Inr w" using assms(3) by (simp add: mkdir_parents_def)
  ultimately have "download_file e a w = (Inr True, ?w2)"
    by (simp add: download_file_def)
  with plan f wc show ?thesis by simp
qed

text \<open>The run of \<^verbatim>\<open>test_download_resume_server_no_range\<close>.\<close>

theorem ignored_range_overwrites_witness:
  "fst (plan_transfer (mock_env mock_no_range) default_args 0 partial_dir) = (AB, 10)
   \<and> (\<exists>w'. download_file (mock_env mock_no_range) default_args partial_dir = (Inr True, w')
         \<and> disk w' = InParent (Some sample_file_content)
         \<and> progress_calls w' = [])"
proof -
  have pre: "resume default_args" "1 \<le> max_retries default_args"
      "disk partial_dir = InParent (Some (take 10 sample_file_content))"
      "take 10 sample_file_content \<noteq> []"
      "server (mock_env mock_no_range) (length (sent partial_dir)) (Head (url default_args)) =
         Response 200 (Numeric 42) [] False"
      "\<not> (400 \<le> (200::int) \<and> (200::int) < 600)"
      "int (length (take 10 sample_file_content)) < 42"
      "server (mock_env mock_no_range) (Suc (length (sent partial_dir)))
         (Get (url default_args)
            [(''Range'', ''bytes='' @ str_int (int (length (take 10 sample_file_content))) @ ''-'')]) =
         Response 200 Absent [sample_file_content] False"
      "int_header Absent = Inr 0"
      "\<not> hash_supplied (expected_hash default_args) \<or>
         (\<exists>digest. hashlib_new (mock_env mock_no_range) (hash_algo default_args) = Some (Fixed digest)
            \<and> expected_hash default_args =
                Some (digest (concat (read_chunks (chunk_size default_args)
                                           (concat [sample_file_content])))))"
    by (simp_all add: fixture_defs int_header_def hash_supplied_def)
  from ignored_range_overwrites [OF pre] show ?thesis
    by (simp add: fixture_defs)
qed

subsection \<open>Progress without a declared length\<close>

text \<open>
  Claim C7, at the mock of \<^verbatim>\<open>test_download_resume_from_partial\<close> with a progress callback
  passed: 10 bytes are on disk, the server answers the range request with status 206,
  the remaining 32 bytes and no \<^verbatim>\<open>content-length\<close>. \<^verbatim>\<open>total_size\<close> is then \<open>0 + 10\<close>, which
  is not zero, and the callback is called with 42 bytes downloaded of a total of 10.
\<close>

theorem progress_reported_without_content_length:
  "download_file (mock_env mock_partial) (default_args\<lparr>progress_callback := True\<rparr>) partial_dir =
     (Inr True,
      \<lparr>disk = InParent (Some sample_file_content),
       sent = [Head test_url, Get test_url [(''Range'', ''bytes=10-'')]],
       progress_calls = [(42, 10)], warnings = []\<rparr>)"
  by (simp add: download_defs fixture_defs)

subsection \<open>The comparison of the digests\<close>

text \<open>
  Claim C8 as the specification words it (a comparison that ignores letter case) fails
  on the expected hash in upper case: the digest of the file is the lower-case
  \<^verbatim>\<open>6f0644ab...\<close>, the comparison of line 68 fails, and the call raises
  \<^verbatim>\<open>HashMismatchError\<close> with the file removed.
\<close>

theorem uppercase_expected_hash_rejected:
  "sha1_known sample_file_content = ''6f0644ab44e4e9a873fb2448cd1011081ae11321''
   \<and> verify_hash (mock_env mock_basic)
        (default_args\<lparr>expected_hash := Some ''6F0644AB44E4E9A873FB2448CD1011081AE11321''\<rparr>)
        complete_dir =
      (Inl (HashMismatchError ''Hash mismatch for http://example.com/test.txt''),
       complete_dir\<lparr>disk := InParent None\<rparr>)
   \<and> download_file (mock_env mock_basic)
        (default_args\<lparr>expected_hash := Some ''6F0644AB44E4E9A873FB2448CD1011081AE11321''\<rparr>)
        empty_dir =
      (Inl (HashMismatchError ''Hash mismatch for http://example.com/test.txt''),
       \<lparr>disk = InParent None, sent = [Get test_url []], progress_calls = [], warnings = []\<rparr>)"
  by (simp add: download_defs fixture_defs)

text \<open>
  Claim C8, amended. The comparison is the equality of two strings, letter case
  included: with an expected hash supplied and an algorithm of fixed digest length that
  \<^verbatim>\<open>hashlib\<close> knows, verification succeeds when the computed hex digest is the expected
  hash character for character, and otherwise removes the file and raises
  \<^verbatim>\<open>HashMismatchError\<close>. The digest is computed over the bytes the read loop feeds, which
  for a chunk size other than zero are the bytes of the file.
\<close>

theorem verify_hash_compares_exactly:
  assumes "expected_hash a = Some h" and "h \<noteq> []"
    and "hashlib_new e (hash_algo a) = Some (Fixed digest)"
    and "disk w = InParent (Some data)"
  shows "verify_hash e a w =
           (if digest (concat (read_chunks (chunk_size a) data)) = h then (Inr (), w)
            else (Inl (HashMismatchError (''Hash mismatch for '' @ url a)),
                  w\<lparr>disk := InParent None\<rparr>))
         \<and> (chunk_size a \<noteq> 0 \<longrightarrow> concat (read_chunks (chunk_size a) data) = data)"
  using assms
  by (simp add: verify_hash_def unlink_def hexdigest_def concat_read_chunks hash_mismatch_msg_def)

text \<open>The sample content against its digest, and against the same digest in upper case.\<close>

theorem verify_hash_compares_exactly_witness:
  "verify_hash (mock_env mock_basic) (default_args\<lparr>expected_hash := Some sample_file_sha1\<rparr>)
       complete_dir = (Inr (), complete_dir)
   \<and> verify_hash (mock_env mock_basic)
        (default_args\<lparr>expected_hash := Some ''6F0644AB44E4E9A873FB2448CD1011081AE11321''\<rparr>)
        complete_dir =
      (Inl (HashMismatchError ''Hash mismatch for http://example.com/test.txt''),
       complete_dir\<lparr>disk := InParent None\<rparr>)"
proof -
  have pre: "hashlib_new (mock_env mock_basic) ''sha1'' = Some (Fixed sha1_known)"
      "disk complete_dir = InParent (Some sample_file_content)"
    by (simp_all add: fixture_defs)
  from verify_hash_compares_exactly
    [where e = "mock_env mock_basic" and a = "default_args\<lparr>expected_hash := Some sample_file_sha1\<rparr>"
       and w = complete_dir and h = sample_file_sha1 and digest = sha1_known
       and data = sample_file_content]
    pre
  have same: "verify_hash (mock_env mock_basic)
      (default_args\<lparr>expected_hash := Some sample_file_sha1\<rparr>) complete_dir = (Inr (), complete_dir)"
    by (simp add: default_args_def sha1_known_def sample_file_sha1_def concat_read_chunks)
  from verify_hash_compares_exactly
    [where e = "mock_env mock_basic"
       and a = "default_args\<lparr>expected_hash := Some ''6F0644AB44E4E9A873FB2448CD1011081AE11321''\<rparr>"
       and w = complete_dir and h = "''6F0644AB44E4E9A873FB2448CD1011081AE11321''"
       and digest = sha1_known and data = sample_file_content]
    pre
  have upper: "verify_hash (mock_env mock_basic)
      (default_args\<lparr>expected_hash := Some ''6F0644AB44E4E9A873FB2448CD1011081AE11321''\<rparr>)
      complete_dir =
      (Inl (HashMismatchError ''Hash mismatch for http://example.com/test.txt''),
       complete_dir\<lparr>disk := InParent None\<rparr>)"
    by (simp add: default_args_def sha1_known_def sample_file_sha1_def test_url_def
        concat_read_chunks)
  from same upper show ?thesis by blast
qed

subsection \<open>No attempt at all\<close>

text \<open>
  Claim C9. With \<^verbatim>\<open>max_retries\<close> at most 0 and the parent directory there or created,
  \<^verbatim>\<open>download_file\<close> returns \<^verbatim>\<open>False\<close>: no request is issued, the callback is not called,
  nothing is logged, the destination is as it was, and the only change is the parent
  directory that was missing.
\<close>

theorem no_attempts_returns_false:
  assumes "max_retries a \<le> 0" and "mkdir_parents e w = Inr w0"
  shows "download_file e a w = (Inr False, w0) \<and> sent w0 = sent w \<and> progress_calls w0 = progress_calls w
     \<and> warnings w0 = warnings w \<and> dest_exists w0 = dest_exists w
     \<and> disk w0 = (case disk w of MissingParent \<Rightarrow> InParent None | InParent d \<Rightarrow> InParent d)"
  using assms
  by (auto simp: download_file_def py_range_nonpos mkdir_parents_def dest_exists_def split: filesystem.splits if_splits)

text \<open>
  No attempts under a missing parent directory, and a negative count with a file at the
  destination.
\<close>

theorem no_attempts_returns_false_witness:
  "download_file (mock_env mock_basic) (default_args\<lparr>max_retries := 0\<rparr>) no_dir =
     (Inr False, empty_dir)
   \<and> download_file (mock_env mock_basic) (default_args\<lparr>max_retries := - 1\<rparr>) partial_dir =
     (Inr False, partial_dir)"
proof -
  have m0: "mkdir_parents (mock_env mock_basic) no_dir = Inr empty_dir"
    by (simp add: mkdir_parents_def fixture_defs)
  have m1: "mkdir_parents (mock_env mock_basic) partial_dir = Inr partial_dir"
    by (simp add: mkdir_parents_def fixture_defs)
  have "max_retries (default_args\<lparr>max_retries := 0\<rparr>) \<le> 0"
    and "max_retries (default_args\<lparr>max_retries := - 1\<rparr>) \<le> 0"
    by simp_all
  from no_attempts_returns_false [OF this(1) m0] no_attempts_returns_false [OF this(2) m1]
  show ?thesis by blast
qed

subsection \<open>An unsupported hash algorithm\<close>

text \<open>
  Claim C10. With an expected hash supplied, an algorithm name that \<^verbatim>\<open>hashlib\<close> rejects,
  \<^verbatim>\<open>max_retries\<close> at least 1 and the parent directory there or created: \<^verbatim>\<open>ValueError\<close> is
  among the exceptions the loop catches, verification raises it whatever was
  downloaded, and the call ends with the \<^verbatim>\<open>DownloadError\<close> of exhausted retries naming
  \<^verbatim>\<open>max_retries\<close>, the destination removed, after one content request per attempt, those
  of the attempts after the first without a range (the whole body), and one warning
  per attempt.
\<close>

theorem unsupported_algorithm_exhausts_retries:
  assumes "hash_supplied (expected_hash a)" and "hashlib_new e (hash_algo a) = None"
    and "1 \<le> max_retries a" and "mkdir_parents e w = Inr w0"
  shows "caught ValueError \<and> (\<forall>w2. verify_hash e a w2 = (Inl ValueError, w2)) \<and>
         (\<exists>w' first. download_file e a w = (Inl (DownloadError (exhausted_msg a)), w')
            \<and> \<not> dest_exists w'
            \<and> sent w' = sent w @ first @ replicate (nat (max_retries a) - 1) (Get (url a) [])
            \<and> length (filter is_get first) = 1
            \<and> map fst (warnings w') = map fst (warnings w) @ map (\<lambda>k. int k + 1) [0..<nat (max_retries a)])"
proof (intro conjI allI)
  show "caught ValueError" by simp
  show "verify_hash e a w2 = (Inl ValueError, w2)" for w2
    using assms(1,2) by (auto simp: verify_hash_def hash_supplied_def split: option.splits)
  let ?n = "nat (max_retries a)"
  from assms(3) have n: "0 < ?n" "int ?n = max_retries a" by simp_all
  from assms(4) have w0: "sent w0 = sent w" "warnings w0 = warnings w"
    by (auto simp: mkdir_parents_def split: filesystem.splits if_splits)
  have step: "\<forall>attempt w r w1. try_body e a attempt w = (r, w1) \<longrightarrow> (\<exists>ex. r = Inl ex \<and> caught ex)"
    using try_body_bad_algo[OF assms(1,2)] by blast
  have upt: "[0..<?n] = 0 # [Suc 0..<?n]" using n(1) by (simp add: upt_conv_Cons)
  obtain r w1 where tb: "try_body e a 0 w0 = (r, w1)" by (cases "try_body e a 0 w0")
  from step tb obtain ex where ex: "r = Inl ex" "caught ex" by blast
  from try_body_sent[OF tb] obtain first where s1: "warnings w1 = warnings w0"
      "sent w1 = sent w0 @ first" "length (filter is_get first) = 1"
    by blast
  obtain rh wh where h: "handler a 0 ex w1 = (rh, wh)" by (cases "handler a 0 ex w1")
  from handler_result[OF h] have hr:
      "rh = (if 0 = max_retries a - 1 then Inl (DownloadError (exhausted_msg a)) else Inr ())"
      "sent wh = sent w1" "warnings wh = warnings w1 @ [(0 + 1, ex)]"
    by simp_all
  from h have gone: "\<not> dest_exists wh" by (rule handler_removes)
  show "\<exists>w' first. download_file e a w = (Inl (DownloadError (exhausted_msg a)), w')
            \<and> \<not> dest_exists w'
            \<and> sent w' = sent w @ first @ replicate (?n - 1) (Get (url a) [])
            \<and> length (filter is_get first) = 1
            \<and> map fst (warnings w') = map fst (warnings w) @ map (\<lambda>k. int k + 1) [0..<?n]"
  proof (cases "?n = 1")
    case True
    then have one: "max_retries a = 1" using n(2) by simp
    from True upt have "[0..<?n] = [0]" by simp
    with assms(4) tb ex h hr one have "download_file e a w = (Inl (DownloadError (exhausted_msg a)), wh)"
      by (simp add: download_file_def py_range_def)
    with gone hr s1 w0 True \<open>[0..<?n] = [0]\<close> show ?thesis
      by (intro exI[of _ wh] exI[of _ first]) simp
  next
    case False
    with n have lt: "Suc 0 < ?n" and more: "0 \<noteq> max_retries a - 1" by auto
    from attempts_all_fail[OF step lt n(2), of wh] obtain w' reqs where R:
      "for_attempts e a (map int [Suc 0..<?n]) wh = (Inl (DownloadError (exhausted_msg a)), w')"
      "\<not> dest_exists w'" "sent w' = sent wh @ reqs"
      "reqs = replicate (?n - Suc 0) (Get (url a) [])"
      "map fst (warnings w') = map fst (warnings wh) @ map (\<lambda>k. int k + 1) [Suc 0..<?n]"
      by auto
    from assms(4) tb ex h hr more R(1) upt have
      "download_file e a w = (Inl (DownloadError (exhausted_msg a)), w')"
      by (simp add: download_file_def py_range_def)
    moreover have "sent w' = sent w @ first @ replicate (?n - 1) (Get (url a) [])"
      using R(3,4) hr s1 w0 by simp
    moreover have "map fst (warnings w') = map fst (warnings w) @ map (\<lambda>k. int k + 1) [0..<?n]"
      using R(5) hr s1 w0 upt by simp
    ultimately show ?thesis using R(2) s1(3) by blast
  qed
qed

text \<open>
  The server of \<^verbatim>\<open>test_download_basic\<close> with the digest asked for under the name
  \<^verbatim>\<open>crc32\<close>: three complete downloads, three times \<^verbatim>\<open>ValueError\<close>.
\<close>

theorem unsupported_algorithm_exhausts_retries_witness:
  "download_file (mock_env mock_basic)
       (default_args\<lparr>expected_hash := Some sample_file_sha1, hash_algo := ''crc32''\<rparr>) empty_dir =
     (Inl (DownloadError ''Failed to download http://example.com/test.txt after 3 attempts''),
      \<lparr>disk = InParent None, sent = [Get test_url [], Get test_url [], Get test_url []],
       progress_calls = [],
       warnings = [(1, ValueError), (2, ValueError), (3, ValueError)]\<rparr>)
   \<and> (\<exists>w' first. download_file (mock_env mock_basic)
          (default_args\<lparr>expected_hash := Some sample_file_sha1, hash_algo := ''crc32''\<rparr>)
          empty_dir =
          (Inl (DownloadError ''Failed to download http://example.com/test.txt after 3 attempts''), w')
        \<and> \<not> dest_exists w'
        \<and> sent w' = first @ [Get test_url [], Get test_url []]
        \<and> length (filter is_get first) = 1)"
proof -
  let ?a = "default_args\<lparr>expected_hash := Some sample_file_sha1, hash_algo := ''crc32''\<rparr>"
  have run: "download_file (mock_env mock_basic) ?a empty_dir =
     (Inl (DownloadError ''Failed to download http://example.com/test.txt after 3 attempts''),
      \<lparr>disk = InParent None, sent = [Get test_url [], Get test_url [], Get test_url []],
       progress_calls = [],
       warnings = [(1, ValueError), (2, ValueError), (3, ValueError)]\<rparr>)"
    by (simp add: download_defs fixture_defs)
  have pre: "hash_supplied (expected_hash ?a)" "hashlib_new (mock_env mock_basic) (hash_algo ?a) = None"
      "1 \<le> max_retries ?a" "mkdir_parents (mock_env mock_basic) empty_dir = Inr empty_dir"
    by (simp_all add: fixture_defs hash_supplied_def mkdir_parents_def)
  from unsupported_algorithm_exhausts_retries [OF pre]
  have "\<exists>w' first. download_file (mock_env mock_basic) ?a empty_dir =
          (Inl (DownloadError ''Failed to download http://example.com/test.txt after 3 attempts''), w')
        \<and> \<not> dest_exists w'
        \<and> sent w' = first @ [Get test_url [], Get test_url []]
        \<and> length (filter is_get first) = 1"
    by (auto simp: fixture_defs exhausted_msg_def str_int_def str_nat.simps digit_char_def
        numeral_3_eq_3)
  with run show ?thesis by blast
qed

end
